theory Spec2Isabelle
  imports Main
begin

section \<open>Shared framework: errors, statuses, connections, observable events\<close>

text \<open>
  Go errors form chains: \<^verbatim>\<open>fmt.Errorf("...: %w", err)\<close> wraps \<open>err\<close>, and
  \<^verbatim>\<open>errors.Is\<close> walks the chain. The two MSSQL sentinels are the ones the MSSQL
  scanner tests for; every other leaf error is \<open>ErrOther\<close>.
\<close>

datatype error =
    ErrNoServerEncryption
  | ErrServerRequiresEncryption
  | ErrOther string
  | ErrWrap string error

fun errors_Is :: "error \<Rightarrow> error \<Rightarrow> bool" where
  "errors_Is (ErrWrap m e) t = (ErrWrap m e = t \<or> errors_Is e t)"
| "errors_Is e t = (e = t)"

text \<open>
  Modelled from the spec: the \<^verbatim>\<open>zgrab2.ScanStatus\<close> type is declared outside the
  files at hand. The scanners name \<^verbatim>\<open>SCAN_SUCCESS\<close>, \<^verbatim>\<open>SCAN_INVALID_INPUTS\<close> and
  \<^verbatim>\<open>SCAN_APPLICATION_ERROR\<close>; the remaining outcomes are those of the status
  classifier (connection-failed, timeout, protocol-error, unknown-error).
\<close>

datatype ScanStatus =
    SCAN_SUCCESS
  | SCAN_CONNECTION_FAILED
  | SCAN_TIMEOUT
  | SCAN_PROTOCOL_ERROR
  | SCAN_APPLICATION_ERROR
  | SCAN_INVALID_INPUTS
  | SCAN_UNKNOWN_ERROR

text \<open>
  A connection is identified by the index of the dial attempt that produced it, so two
  successful dials never yield the same connection (each Go \<^verbatim>\<open>Dial\<close> returns a fresh
  \<^verbatim>\<open>net.Conn\<close>).
\<close>

type_synonym conn = nat

text \<open>
  Modelled from the spec: \<^verbatim>\<open>EncryptMode\<close> is declared in the MSSQL connection code,
  which is not among the files at hand; the data model enumerates ON, OFF,
  NOT_SUPPORTED, REQUIRED, CLIENT_FORCED and leaves the list open.
\<close>

datatype EncryptMode =
    EncryptModeOn
  | EncryptModeOff
  | EncryptModeNotSupported
  | EncryptModeRequired
  | EncryptModeClientForced
  | EncryptModeUnknown

text \<open>What a handshake does on the wire, as far as the properties below need it.\<close>

datatype hs_event =
    SentPrelogin EncryptMode
  | ReadPreloginResponse
  | SentTLSBytes string

text \<open>
  The effects of a scan that an observer can see, in program order. The third and fourth
  fields of \<open>EvGetSMBLog\<close> are the third and fourth positional arguments of the call.
\<close>

datatype event =
    EvDial conn
  | EvDialFailed
  | EvClose conn
  | EvGetSMBLog conn bool bool bool
  | EvHandshake conn "hs_event list"
  | EvGetTelnetBanner conn int

text \<open>
  \<^verbatim>\<open>zgrab2.DialerGroup\<close>: \<open>Dial\<close> and \<open>L4Dialer\<close> give the outcome of the dial attempt
  with the given index (\<open>None\<close> is success); \<open>L4Dialer\<close> itself may be nil.
  \<^verbatim>\<open>zgrab2.TryGetScanStatus\<close> lives outside the files at hand and is a parameter.
\<close>

record zgrab2 =
  Dial :: "nat \<Rightarrow> error option"
  L4Dialer :: "(nat \<Rightarrow> error option) option"
  TryGetScanStatus :: "error \<Rightarrow> ScanStatus"

type_synonym 'r scan_return = "(ScanStatus \<times> 'r option \<times> error option) \<times> event list"

definition status_of :: "'r scan_return \<Rightarrow> ScanStatus" where
  "status_of r = fst (fst r)"

definition result_of :: "'r scan_return \<Rightarrow> 'r option" where
  "result_of r = fst (snd (fst r))"

definition error_of :: "'r scan_return \<Rightarrow> error option" where
  "error_of r = snd (snd (fst r))"

definition trace_of :: "'r scan_return \<Rightarrow> event list" where
  "trace_of r = snd r"

definition closes :: "event list \<Rightarrow> conn \<Rightarrow> nat" where
  "closes tr c = count_list tr (EvClose c)"

fun is_GetSMBLog :: "event \<Rightarrow> bool" where
  "is_GetSMBLog (EvGetSMBLog c s a v) = True"
| "is_GetSMBLog e = False"

definition negotiator_calls :: "event list \<Rightarrow> event list" where
  "negotiator_calls tr = filter is_GetSMBLog tr"

section \<open>SMB scanner (modules/smb/scanner.go)\<close>

record smb_Flags =
  SetupSession :: bool
  smb_Verbose :: bool

text \<open>
  \<^verbatim>\<open>smb.GetSMBLog\<close> belongs to the SMB library and is a parameter: it returns a log
  pointer and an error, each of which may be nil independently of the other.
\<close>

record 'l smb_world = zgrab2 +
  GetSMBLog :: "conn \<Rightarrow> bool \<Rightarrow> bool \<Rightarrow> bool \<Rightarrow> 'l option \<times> error option"

text \<open>
  \<^verbatim>\<open>Scan\<close>. The deferred closes run at return, last registered first; the explicit
  close of the first connection before the second dial is an event of its own.
\<close>

definition smb_Scan :: "('l, 'x) smb_world_scheme \<Rightarrow> smb_Flags \<Rightarrow> 'l scan_return" where
  "smb_Scan w config =
    (case Dial w 0 of
       Some err \<Rightarrow>
         ((TryGetScanStatus w err, None,
           Some (ErrWrap ''could not establish connection to SMB server'' err)),
          [EvDialFailed])
     | None \<Rightarrow>
        (let conn = 0;
             setupSession = SetupSession config;
             verbose = smb_Verbose config;
             (result, err) = GetSMBLog w conn setupSession False verbose;
             tr1 = [EvDial conn, EvGetSMBLog conn setupSession False verbose]
         in case err of
              None \<Rightarrow> ((SCAN_SUCCESS, result, None), tr1 @ [EvClose conn])
            | Some e \<Rightarrow>
               (case result of
                  Some r \<Rightarrow> ((TryGetScanStatus w e, Some r, Some e), tr1 @ [EvClose conn])
                | None \<Rightarrow>
                   (let tr2 = tr1 @ [EvClose conn] in
                    case Dial w 1 of
                      Some err2 \<Rightarrow>
                        ((TryGetScanStatus w err2, None,
                          Some (ErrWrap ''could not establish connection to SMB server on 2nd attempt'' err2)),
                         tr2 @ [EvDialFailed, EvClose conn])
                    | None \<Rightarrow>
                       (let newConn = 1;
                            (result2, err2) = GetSMBLog w newConn setupSession True verbose;
                            tr3 = tr2 @ [EvDial newConn, EvGetSMBLog newConn setupSession True verbose]
                        in case err2 of
                             Some e2 \<Rightarrow>
                               ((TryGetScanStatus w e2, result2, Some e2),
                                tr3 @ [EvClose newConn, EvClose conn])
                           | None \<Rightarrow>
                               ((SCAN_SUCCESS, result2, None),
                                tr3 @ [EvClose newConn, EvClose conn]))))))"

text \<open>The retry path of the SMB scan: the first negotiator call gave an error and a nil log.\<close>

definition smb_retried :: "('l, 'x) smb_world_scheme \<Rightarrow> smb_Flags \<Rightarrow> bool" where
  "smb_retried w config =
     (case GetSMBLog w 0 (SetupSession config) False (smb_Verbose config) of
        (None, Some e) \<Rightarrow> True
      | _ \<Rightarrow> False)"

text \<open>Concrete worlds for the SMB scanner.\<close>

fun dial_ok :: "nat \<Rightarrow> error option" where
  "dial_ok n = None"

fun dial_first_only :: "nat \<Rightarrow> error option" where
  "dial_first_only n = (if n = 0 then None else Some (ErrOther ''connection refused''))"

fun status_unknown :: "error \<Rightarrow> ScanStatus" where
  "status_unknown e = SCAN_UNKNOWN_ERROR"

fun smblog_reset_then_ok :: "conn \<Rightarrow> bool \<Rightarrow> bool \<Rightarrow> bool \<Rightarrow> string option \<times> error option" where
  "smblog_reset_then_ok c s a v =
     (if c = 0 then (None, Some (ErrOther ''connection reset''))
      else (Some ''negotiated'', None))"

fun smblog_partial :: "conn \<Rightarrow> bool \<Rightarrow> bool \<Rightarrow> bool \<Rightarrow> string option \<times> error option" where
  "smblog_partial c s a v = (Some ''partial'', Some (ErrOther ''session setup failed''))"

definition smb_world_retry :: "string smb_world" where
  "smb_world_retry =
     \<lparr>Dial = dial_ok, L4Dialer = None, TryGetScanStatus = status_unknown,
      GetSMBLog = smblog_reset_then_ok\<rparr>"

definition smb_world_redial_fails :: "string smb_world" where
  "smb_world_redial_fails =
     \<lparr>Dial = dial_first_only, L4Dialer = None, TryGetScanStatus = status_unknown,
      GetSMBLog = smblog_reset_then_ok\<rparr>"

definition smb_world_partial :: "string smb_world" where
  "smb_world_partial =
     \<lparr>Dial = dial_ok, L4Dialer = None, TryGetScanStatus = status_unknown,
      GetSMBLog = smblog_partial\<rparr>"

definition smb_quiet :: smb_Flags where
  "smb_quiet = \<lparr>SetupSession = False, smb_Verbose = False\<rparr>"

section \<open>MSSQL scanner (the Scan operation of package mssql)\<close>

text \<open>
  Modelled from the spec: the option tokens are declared in the MSSQL connection code,
  which is not among the files at hand; Scan names \<^verbatim>\<open>PreloginInstance\<close>, the data
  model lists VERSION, ENCRYPTION, INSTANCE, THREADID and MARS.
\<close>

datatype PreloginOptionToken =
    PreloginVersion
  | PreloginEncryption
  | PreloginInstance
  | PreloginThreadID
  | PreloginMARS

text \<open>\<^verbatim>\<open>PreloginOptions\<close> is a Go map from option token to the raw bytes of the option.\<close>

type_synonym PreloginOptions = "PreloginOptionToken \<rightharpoonup> string"

type_synonym TLSLog = string

text \<open>A TLS connection, as far as Scan uses it: \<^verbatim>\<open>GetLog()\<close> returns a log pointer.\<close>

datatype TLSConnection = TLSConnection (GetLog: "TLSLog option")

text \<open>The fields of \<^verbatim>\<open>Connection\<close> that Scan reads after the handshake.\<close>

record Connection =
  rawConn :: conn
  PreloginOptions :: "PreloginOptions option"
  readValidTDSPacket :: bool
  tlsConn :: "TLSConnection option"

text \<open>
  Modelled from the spec: \<^verbatim>\<open>NewConnection\<close> is not among the files at hand; every
  per-scan structure is created fresh, so nothing has been read or decoded yet.
\<close>

definition NewConnection :: "conn \<Rightarrow> Connection" where
  "NewConnection c =
     \<lparr>rawConn = c, PreloginOptions = None, readValidTDSPacket = False, tlsConn = None\<rparr>"

record ScanResults =
  Version :: string
  InstanceName :: "string option"
  result_PreloginOptions :: "PreloginOptions option"
  result_EncryptMode :: "EncryptMode option"
  result_TLSLog :: "TLSLog option"

definition empty_ScanResults :: ScanResults where
  "empty_ScanResults =
     \<lparr>Version = [], InstanceName = None, result_PreloginOptions = None,
      result_EncryptMode = None, result_TLSLog = None\<rparr>"

record mssql_Flags =
  flag_EncryptMode :: string
  mssql_Verbose :: bool

text \<open>
  \<^verbatim>\<open>strings.Trim(s, cutset)\<close> for an ASCII cutset: Go trims the right end, then the
  left end, byte by byte.
\<close>

definition trimRight :: "string \<Rightarrow> string \<Rightarrow> string" where
  "trimRight s cutset = rev (dropWhile (\<lambda>c. c \<in> set cutset) (rev s))"

definition trimLeft :: "string \<Rightarrow> string \<Rightarrow> string" where
  "trimLeft s cutset = dropWhile (\<lambda>c. c \<in> set cutset) s"

definition strings_Trim :: "string \<Rightarrow> string \<Rightarrow> string" where
  "strings_Trim s cutset = trimLeft (trimRight s cutset) cutset"

text \<open>The cutset of Scan: NUL, CR and LF.\<close>

definition instance_cutset :: string where
  "instance_cutset = [CHR 0x00, CHR 0x0D, CHR 0x0A]"

text \<open>
  \<^verbatim>\<open>Connection.Handshake\<close> and \<^verbatim>\<open>PreloginOptions.GetVersion\<close> (with the version's
  \<^verbatim>\<open>String\<close>) are not among the files at hand and are parameters of the scanner. The
  handshake receives the connection and the configured encrypt-mode string; it returns
  the encrypt mode and an optional error, the connection as it left it, and what it did
  on the wire.
\<close>

record 'v mssql_world = zgrab2 +
  Handshake :: "Connection \<Rightarrow> string \<Rightarrow> (EncryptMode \<times> error option) \<times> Connection \<times> hs_event list"
  GetVersion :: "PreloginOptions \<Rightarrow> 'v option"
  version_String :: "'v \<Rightarrow> string"

text \<open>The result as Scan fills it in after the handshake, before it looks at the error.\<close>

definition fill_result ::
  "('v, 'x) mssql_world_scheme \<Rightarrow> EncryptMode \<Rightarrow> Connection \<Rightarrow> ScanResults" where
  "fill_result w encryptMode sql =
     (let result1 = empty_ScanResults\<lparr>result_EncryptMode := Some encryptMode\<rparr>;
          result2 = (case tlsConn sql of
                       None \<Rightarrow> result1
                     | Some t \<Rightarrow> result1\<lparr>result_TLSLog := GetLog t\<rparr>)
      in case PreloginOptions sql of
           None \<Rightarrow> result2
         | Some opts \<Rightarrow>
            (let result3 = result2\<lparr>result_PreloginOptions := Some opts\<rparr>;
                 result4 = (case GetVersion w opts of
                              None \<Rightarrow> result3
                            | Some version \<Rightarrow> result3\<lparr>Version := version_String w version\<rparr>)
             in case opts PreloginInstance of
                  Some name \<Rightarrow> result4\<lparr>InstanceName := Some (strings_Trim name instance_cutset)\<rparr>
                | None \<Rightarrow> result4\<lparr>InstanceName := None\<rparr>))"

text \<open>
  \<^verbatim>\<open>Scan\<close>. The deferred \<^verbatim>\<open>sql.Close()\<close> runs at return on every path after the dial
  has succeeded; it is recorded as the close of the connection that \<open>sql\<close> wraps. An
  error of the close is logged and does not change what Scan returns.
\<close>

definition mssql_Scan ::
  "('v, 'x) mssql_world_scheme \<Rightarrow> mssql_Flags \<Rightarrow> ScanResults scan_return" where
  "mssql_Scan w config =
    (case L4Dialer w of
       None \<Rightarrow>
         ((SCAN_INVALID_INPUTS, None, Some (ErrOther ''l4 dialer is required for mssql'')), [])
     | Some l4Dialer \<Rightarrow>
        (case l4Dialer 0 of
           Some err \<Rightarrow>
             ((TryGetScanStatus w err, None, Some (ErrWrap ''error dialing target'' err)),
              [EvDialFailed])
         | None \<Rightarrow>
            (let conn = 0;
                 ((encryptMode, handshakeErr), sql, wire) =
                    Handshake w (NewConnection conn) (flag_EncryptMode config);
                 result = fill_result w encryptMode sql;
                 tr = [EvDial conn, EvHandshake conn wire, EvClose conn]
             in case handshakeErr of
                  Some herr \<Rightarrow>
                    (let result' = (if PreloginOptions sql = None \<and> \<not> readValidTDSPacket sql
                                    then None else Some result)
                     in if errors_Is herr ErrNoServerEncryption
                        then ((SCAN_APPLICATION_ERROR, result', Some herr), tr)
                        else if errors_Is herr ErrServerRequiresEncryption
                        then ((SCAN_APPLICATION_ERROR, result', Some herr), tr)
                        else ((TryGetScanStatus w herr, result', Some herr), tr))
                | None \<Rightarrow> ((SCAN_SUCCESS, Some result, None), tr))))"

section \<open>Telnet scanner (modules/telnet/scanner.go)\<close>

text \<open>
  Modelled from the spec: \<^verbatim>\<open>TelnetLog\<close> is declared in the Telnet reader, which is not
  among the files at hand. The Telnet result holds the banner bytes and the list of
  negotiated option codes with direction and outcome; Scan reads \<^verbatim>\<open>Banner\<close>.
\<close>

datatype TelnetCommand = WILL | WONT | DO | DONT

record NegotiatedOption =
  option_code :: char
  option_direction :: TelnetCommand
  option_refused :: bool

record TelnetLog =
  Banner :: string
  NegotiatedOptions :: "NegotiatedOption list"

definition new_TelnetLog :: TelnetLog where
  "new_TelnetLog = \<lparr>Banner = [], NegotiatedOptions = []\<rparr>"

record telnet_Flags =
  MaxReadSize :: int
  flag_Banner :: bool
  telnet_Verbose :: bool

text \<open>
  \<^verbatim>\<open>GetTelnetBanner\<close> (which fills the log in place and returns an error) and
  \<^verbatim>\<open>getResult\<close> (which returns a log pointer) are not among the files at hand and are
  parameters of the scanner.
\<close>

record telnet_world = zgrab2 +
  GetTelnetBanner :: "TelnetLog \<Rightarrow> conn \<Rightarrow> int \<Rightarrow> TelnetLog \<times> error option"
  getResult :: "TelnetLog \<Rightarrow> TelnetLog option"

text \<open>\<^verbatim>\<open>Scan\<close>. The deferred close runs at return on every path after the dial has succeeded.\<close>

definition telnet_Scan :: "'x telnet_world_scheme \<Rightarrow> telnet_Flags \<Rightarrow> TelnetLog scan_return" where
  "telnet_Scan w config =
    (case Dial w 0 of
       Some err \<Rightarrow>
         ((TryGetScanStatus w err, None,
           Some (ErrWrap ''could not establish connection to telnet server'' err)),
          [EvDialFailed])
     | None \<Rightarrow>
        (let conn = 0;
             (result, err) = GetTelnetBanner w new_TelnetLog conn (MaxReadSize config);
             tr = [EvDial conn, EvGetTelnetBanner conn (MaxReadSize config), EvClose conn]
         in case err of
              Some e \<Rightarrow>
                (if flag_Banner config \<and> length (Banner result) > 0
                 then ((TryGetScanStatus w e, Some result, Some e), tr)
                 else ((TryGetScanStatus w e, getResult w result, Some e), tr))
            | None \<Rightarrow> ((SCAN_SUCCESS, Some result, None), tr)))"

section \<open>The MSSQL handshake, from its specification\<close>

text \<open>
  Modelled from the spec: the reading of the configured encrypt-mode string is part of
  the MSSQL connection code, which is not among the files at hand. The string is one of
  \<^verbatim>\<open>ENCRYPT_ON\<close>, \<^verbatim>\<open>ENCRYPT_OFF\<close>, \<^verbatim>\<open>ENCRYPT_NOT_SUP\<close> (the description of the
  \<^verbatim>\<open>--encrypt-mode\<close> flag).
\<close>

definition getEncryptMode :: "string \<Rightarrow> EncryptMode" where
  "getEncryptMode flag =
     (if flag = ''ENCRYPT_ON'' then EncryptModeOn
      else if flag = ''ENCRYPT_OFF'' then EncryptModeOff
      else if flag = ''ENCRYPT_NOT_SUP'' then EncryptModeNotSupported
      else EncryptModeUnknown)"

text \<open>
  Modelled from the spec: the outcomes of AwaitPreloginResponse. The peer answers
  PRELOGIN with nothing readable, bytes whose header is not a valid
  TDS header, a valid TDS packet whose option table does not decode, or a decoded option
  table.
\<close>

datatype PreloginReply =
    ReplyReadError error
  | ReplyNotTDS
  | ReplyBadOptions
  | ReplyOptions PreloginOptions

text \<open>
  Modelled from the spec: the peer of one handshake, as the state machine sees it:
  whether the PRELOGIN write succeeds, the reply, the chunks of TLS handshake bytes the
  client would send, how the TLS handshake ends (\<open>None\<close> is success) and the TLS log
  it leaves. \<open>decodeEncryptMode\<close> reads the ENCRYPTION option's
  bytes as a mode; the numeric codes are part of the codec, which is a parameter.
\<close>

record mssql_peer =
  decodeEncryptMode :: "string \<Rightarrow> EncryptMode"
  preloginWrite :: "error option"
  preloginReply :: PreloginReply
  tlsChunks :: "string list"
  tlsResult :: "error option"
  tlsLog :: "TLSLog option"

definition serverEncryptMode :: "mssql_peer \<Rightarrow> PreloginOptions \<Rightarrow> EncryptMode" where
  "serverEncryptMode peer opts =
     (case opts PreloginEncryption of
        None \<Rightarrow> EncryptModeUnknown
      | Some v \<Rightarrow> decodeEncryptMode peer v)"

text \<open>
  Modelled from the spec: \<^verbatim>\<open>Connection.Handshake\<close> is not among the files at hand.
  The state machine is Init, SendPrelogin, AwaitPreloginResponse, then either Done or
  TLSHandshakeOverTDS and Done, with a failure exit from every state:
  \<^item> a reply whose first header is not a valid TDS header is rejected, and no valid
    packet is recorded; a valid header is recorded in \<open>readValidTDSPacket\<close> whether or
    not the options decode;
  \<^item> if the client requested ON and the server reports NOT_SUPPORTED the handshake ends
    with \<open>ErrNoServerEncryption\<close>, the mode being the server's;
  \<^item> if the server's mode is NOT_SUPPORTED, TLS is skipped and the handshake is complete;
  \<^item> for any other mode the TLS handshake runs inside TDS packets; if it fails and the
    server's mode is REQUIRED or CLIENT_FORCED the error is \<open>ErrServerRequiresEncryption\<close>.
\<close>

definition Handshake_spec ::
  "mssql_peer \<Rightarrow> Connection \<Rightarrow> string \<Rightarrow> (EncryptMode \<times> error option) \<times> Connection \<times> hs_event list" where
  "Handshake_spec peer sql flag =
    (let clientMode = getEncryptMode flag in
     case preloginWrite peer of
       Some e \<Rightarrow> ((EncryptModeUnknown, Some e), sql, [])
     | None \<Rightarrow>
        (case preloginReply peer of
           ReplyReadError e \<Rightarrow> ((EncryptModeUnknown, Some e), sql, [SentPrelogin clientMode])
         | ReplyNotTDS \<Rightarrow>
             ((EncryptModeUnknown, Some (ErrOther ''not a valid TDS header'')), sql,
              [SentPrelogin clientMode, ReadPreloginResponse])
         | ReplyBadOptions \<Rightarrow>
             ((EncryptModeUnknown, Some (ErrOther ''prelogin option out of bounds'')),
              sql\<lparr>readValidTDSPacket := True\<rparr>,
              [SentPrelogin clientMode, ReadPreloginResponse])
         | ReplyOptions opts \<Rightarrow>
            (let sql1 = sql\<lparr>PreloginOptions := Some opts, readValidTDSPacket := True\<rparr>;
                 serverMode = serverEncryptMode peer opts;
                 wire = [SentPrelogin clientMode, ReadPreloginResponse]
             in if clientMode = EncryptModeOn \<and> serverMode = EncryptModeNotSupported
                then ((serverMode, Some ErrNoServerEncryption), sql1, wire)
                else if serverMode = EncryptModeNotSupported
                then ((serverMode, None), sql1, wire)
                else
                 (let sql2 = sql1\<lparr>tlsConn := Some (TLSConnection (tlsLog peer))\<rparr>;
                      wire2 = wire @ map SentTLSBytes (tlsChunks peer)
                  in case tlsResult peer of
                       None \<Rightarrow> ((serverMode, None), sql2, wire2)
                     | Some e \<Rightarrow>
                        (if serverMode = EncryptModeRequired \<or> serverMode = EncryptModeClientForced
                         then ((serverMode, Some ErrServerRequiresEncryption), sql2, wire2)
                         else ((serverMode, Some e), sql2, wire2))))))"

fun is_SentTLSBytes :: "hs_event \<Rightarrow> bool" where
  "is_SentTLSBytes (SentTLSBytes b) = True"
| "is_SentTLSBytes e = False"

text \<open>Concrete worlds for the MSSQL scanner.\<close>

fun no_version :: "PreloginOptions \<Rightarrow> string option" where
  "no_version opts = None"

fun version_text :: "string \<Rightarrow> string" where
  "version_text v = v"

text \<open>The usual TDS codes of the ENCRYPTION option, for the concrete peers only.\<close>

fun decode_mode :: "string \<Rightarrow> EncryptMode" where
  "decode_mode v =
     (if v = [CHR 0x00] then EncryptModeOff
      else if v = [CHR 0x01] then EncryptModeOn
      else if v = [CHR 0x02] then EncryptModeNotSupported
      else if v = [CHR 0x03] then EncryptModeRequired
      else EncryptModeUnknown)"

definition mssql_world_of :: "mssql_peer \<Rightarrow> string mssql_world" where
  "mssql_world_of peer =
     \<lparr>Dial = dial_ok, L4Dialer = Some dial_ok, TryGetScanStatus = status_unknown,
      Handshake = Handshake_spec peer, GetVersion = no_version, version_String = version_text\<rparr>"

definition mssql_world_no_l4 :: "mssql_peer \<Rightarrow> string mssql_world" where
  "mssql_world_no_l4 peer =
     \<lparr>Dial = dial_ok, L4Dialer = None, TryGetScanStatus = status_unknown,
      Handshake = Handshake_spec peer, GetVersion = no_version, version_String = version_text\<rparr>"

definition options_not_supported :: PreloginOptions where
  "options_not_supported =
     [PreloginEncryption \<mapsto> [CHR 0x02], PreloginInstance \<mapsto> ''SQLEXPRESS'' @ [CHR 0x00]]"

definition options_required_no_instance :: PreloginOptions where
  "options_required_no_instance = [PreloginEncryption \<mapsto> [CHR 0x03]]"

definition peer_not_supported :: mssql_peer where
  "peer_not_supported =
     \<lparr>decodeEncryptMode = decode_mode, preloginWrite = None,
      preloginReply = ReplyOptions options_not_supported,
      tlsChunks = [''client hello''], tlsResult = None, tlsLog = Some ''tls log''\<rparr>"

definition options_on_sqlexpress :: PreloginOptions where
  "options_on_sqlexpress =
     [PreloginEncryption \<mapsto> [CHR 0x01], PreloginInstance \<mapsto> ''SQLEXPRESS'' @ [CHR 0x00]]"

definition peer_on_sqlexpress :: mssql_peer where
  "peer_on_sqlexpress =
     \<lparr>decodeEncryptMode = decode_mode, preloginWrite = None,
      preloginReply = ReplyOptions options_on_sqlexpress,
      tlsChunks = [''client hello'', ''client key exchange''], tlsResult = None,
      tlsLog = Some ''tls log''\<rparr>"

definition peer_required_tls_fails :: mssql_peer where
  "peer_required_tls_fails =
     \<lparr>decodeEncryptMode = decode_mode, preloginWrite = None,
      preloginReply = ReplyOptions options_required_no_instance,
      tlsChunks = [''client hello''], tlsResult = Some (ErrOther ''handshake timeout''),
      tlsLog = None\<rparr>"

definition peer_not_mssql :: mssql_peer where
  "peer_not_mssql =
     \<lparr>decodeEncryptMode = decode_mode, preloginWrite = None,
      preloginReply = ReplyNotTDS,
      tlsChunks = [], tlsResult = None, tlsLog = None\<rparr>"

definition peer_bad_options :: mssql_peer where
  "peer_bad_options =
     \<lparr>decodeEncryptMode = decode_mode, preloginWrite = None,
      preloginReply = ReplyBadOptions,
      tlsChunks = [], tlsResult = None, tlsLog = None\<rparr>"

definition mssql_on :: mssql_Flags where
  "mssql_on = \<lparr>flag_EncryptMode = ''ENCRYPT_ON'', mssql_Verbose = False\<rparr>"

definition mssql_not_sup :: mssql_Flags where
  "mssql_not_sup = \<lparr>flag_EncryptMode = ''ENCRYPT_NOT_SUP'', mssql_Verbose = False\<rparr>"

section \<open>The Telnet banner reader, from its specification\<close>

text \<open>
  Modelled from the spec: the Telnet control sequences are an escape byte (IAC, 0xFF),
  a command byte (WILL, WONT, DO, DONT: 0xFB to 0xFE) and an option code byte.
\<close>

definition IAC :: char where
  "IAC = CHR 0xFF"

definition command_of :: "char \<Rightarrow> TelnetCommand option" where
  "command_of b =
     (if b = CHR 0xFB then Some WILL
      else if b = CHR 0xFC then Some WONT
      else if b = CHR 0xFD then Some DO
      else if b = CHR 0xFE then Some DONT
      else None)"

text \<open>
  Modelled from the spec: every option is refused by replying WONT or DONT. WILL and
  WONT are answered DONT, DO and DONT are answered WONT.
\<close>

fun refusal :: "TelnetCommand \<Rightarrow> char" where
  "refusal WILL = CHR 0xFE"
| "refusal WONT = CHR 0xFE"
| "refusal DO = CHR 0xFC"
| "refusal DONT = CHR 0xFC"

text \<open>How the stream ends after its last byte: the peer closes, or a read fails.\<close>

datatype stream_end = EOF | ReadFails error

text \<open>
  Modelled from the spec: the banner reader behind \<^verbatim>\<open>GetTelnetBanner\<close> is not among
  the files at hand. It reads the stream up to \<open>maxBytes\<close> banner bytes; at the
  escape byte the next two bytes are a negotiation command and an option code, recorded
  and refused on the same connection, not banner content. It stops at the ceiling, at
  EOF or at a read error. A control sequence cut off by the end of the stream is a read
  error, and so is here an escape byte followed by a byte that is not one of the four
  commands. EOF with no banner byte and no negotiated option is reported as "no banner".
  The results are the banner, the options, the replies written and the error.
\<close>

fun ReadBanner ::
  "nat \<Rightarrow> stream_end \<Rightarrow> string \<Rightarrow> string \<Rightarrow> NegotiatedOption list \<Rightarrow> string
     \<Rightarrow> string \<times> NegotiatedOption list \<times> string \<times> error option" where
  "ReadBanner maxBytes fin [] banner opts replies =
     (if maxBytes \<le> length banner then (banner, opts, replies, None)
      else case fin of
             ReadFails e \<Rightarrow> (banner, opts, replies, Some e)
           | EOF \<Rightarrow>
              (if banner = [] \<and> opts = [] then (banner, opts, replies, Some (ErrOther ''no banner''))
               else (banner, opts, replies, None)))"
| "ReadBanner maxBytes fin (b # rest) banner opts replies =
     (if maxBytes \<le> length banner then (banner, opts, replies, None)
      else if b = IAC then
        (case rest of
           cmd # code # rest' \<Rightarrow>
             (case command_of cmd of
                Some c \<Rightarrow>
                  ReadBanner maxBytes fin rest' banner
                    (opts @ [\<lparr>option_code = code, option_direction = c, option_refused = True\<rparr>])
                    (replies @ [IAC, refusal c, code])
              | None \<Rightarrow> (banner, opts, replies, Some (ErrOther ''unexpected telnet command'')))
         | _ \<Rightarrow> (banner, opts, replies, Some (ErrOther ''truncated control sequence'')))
      else ReadBanner maxBytes fin rest (banner @ [b]) opts replies)"

text \<open>
  Modelled from the spec: \<^verbatim>\<open>GetTelnetBanner(log, conn, maxReadSize)\<close> runs the reader
  on the connection's stream and stores banner and options in the log.
\<close>

definition GetTelnetBanner_spec ::
  "string \<Rightarrow> stream_end \<Rightarrow> TelnetLog \<Rightarrow> conn \<Rightarrow> int \<Rightarrow> TelnetLog \<times> error option" where
  "GetTelnetBanner_spec stream fin log c maxReadSize =
     (case ReadBanner (nat maxReadSize) fin stream (Banner log) (NegotiatedOptions log) [] of
        (banner, opts, replies, err) \<Rightarrow>
          (log\<lparr>Banner := banner, NegotiatedOptions := opts\<rparr>, err))"

text \<open>
  Modelled from the spec: \<^verbatim>\<open>getResult\<close> is not among the files at hand; Scan attaches
  what it returns when the banner grab has failed. The attachment rule of the status
  classifier is: on failure, attach the result only if partial data was produced,
  otherwise attach nil. The partial data of a Telnet result are its banner bytes and its
  negotiated options.
\<close>

definition getResult_spec :: "TelnetLog \<Rightarrow> TelnetLog option" where
  "getResult_spec log =
     (if Banner log = [] \<and> NegotiatedOptions log = [] then None else Some log)"

text \<open>Concrete worlds for the Telnet scanner.\<close>

definition telnet_world_of :: "string \<Rightarrow> stream_end \<Rightarrow> telnet_world" where
  "telnet_world_of stream fin =
     \<lparr>Dial = dial_ok, L4Dialer = None, TryGetScanStatus = status_unknown,
      GetTelnetBanner = GetTelnetBanner_spec stream fin, getResult = getResult_spec\<rparr>"

definition telnet_flags :: "int \<Rightarrow> bool \<Rightarrow> telnet_Flags" where
  "telnet_flags m force = \<lparr>MaxReadSize = m, flag_Banner = force, telnet_Verbose = False\<rparr>"

section \<open>Properties of the SMB scanner\<close>

lemmas scan_return_defs = status_of_def result_of_def error_of_def trace_of_def

text \<open>
  C6. When the connection is established and the first call to the negotiator returns
  an error together with a non-nil (partial) log, there is no retry: the negotiator is
  called exactly once, and the scan returns that partial log and that error, with the
  status the classifier gives the error.
\<close>

theorem smb_partial_log_no_retry:
  assumes "Dial w 0 = None"
    and "GetSMBLog w 0 (SetupSession config) False (smb_Verbose config) = (Some r, Some e)"
  shows "negotiator_calls (trace_of (smb_Scan w config)) =
           [EvGetSMBLog 0 (SetupSession config) False (smb_Verbose config)]
         \<and> result_of (smb_Scan w config) = Some r
         \<and> error_of (smb_Scan w config) = Some e
         \<and> status_of (smb_Scan w config) = TryGetScanStatus w e"
  using assms by (simp add: smb_Scan_def scan_return_defs negotiator_calls_def)

theorem smb_partial_log_no_retry_witness:
  "Dial smb_world_partial 0 = None
   \<and> GetSMBLog smb_world_partial 0 (SetupSession smb_quiet) False (smb_Verbose smb_quiet)
       = (Some ''partial'', Some (ErrOther ''session setup failed''))
   \<and> negotiator_calls (trace_of (smb_Scan smb_world_partial smb_quiet)) =
       [EvGetSMBLog 0 False False False]
   \<and> result_of (smb_Scan smb_world_partial smb_quiet) = Some ''partial''
   \<and> error_of (smb_Scan smb_world_partial smb_quiet) = Some (ErrOther ''session setup failed'')
   \<and> status_of (smb_Scan smb_world_partial smb_quiet) = SCAN_UNKNOWN_ERROR"
proof -
  have d: "Dial smb_world_partial 0 = None"
    by (simp add: smb_world_partial_def)
  have g: "GetSMBLog smb_world_partial 0 (SetupSession smb_quiet) False (smb_Verbose smb_quiet)
             = (Some ''partial'', Some (ErrOther ''session setup failed''))"
    by (simp add: smb_world_partial_def)
  show ?thesis
    using d g smb_partial_log_no_retry [OF d g]
    by (simp add: smb_world_partial_def smb_quiet_def)
qed

text \<open>
  C1 (amended). When the connection is established and the first call to the negotiator
  fails with a nil log, the scan closes that connection and dials again. If the second
  dial succeeds, the negotiator is called exactly once more, on the new connection, so
  exactly twice in total; the second call has its third argument true (it was false in
  the first call) and passes the configured setup-session and verbose flags unchanged;
  status, result and error are those of the second attempt only. If the second dial
  fails, the negotiator has been called once, and the scan returns the status of the
  dial error, a nil result and the wrapped dial error.
\<close>

theorem smb_retry_after_nil_log:
  assumes d: "Dial w 0 = None"
    and g: "GetSMBLog w 0 (SetupSession config) False (smb_Verbose config) = (None, Some e)"
  shows "(\<forall>e2. Dial w 1 = Some e2 \<longrightarrow>
            trace_of (smb_Scan w config) =
              [EvDial 0, EvGetSMBLog 0 (SetupSession config) False (smb_Verbose config),
               EvClose 0, EvDialFailed, EvClose 0]
            \<and> negotiator_calls (trace_of (smb_Scan w config)) =
              [EvGetSMBLog 0 (SetupSession config) False (smb_Verbose config)]
            \<and> status_of (smb_Scan w config) = TryGetScanStatus w e2
            \<and> result_of (smb_Scan w config) = None
            \<and> error_of (smb_Scan w config) =
                Some (ErrWrap ''could not establish connection to SMB server on 2nd attempt'' e2))
       \<and> (Dial w 1 = None \<longrightarrow>
            trace_of (smb_Scan w config) =
              [EvDial 0, EvGetSMBLog 0 (SetupSession config) False (smb_Verbose config),
               EvClose 0,
               EvDial 1, EvGetSMBLog 1 (SetupSession config) True (smb_Verbose config),
               EvClose 1, EvClose 0]
            \<and> negotiator_calls (trace_of (smb_Scan w config)) =
              [EvGetSMBLog 0 (SetupSession config) False (smb_Verbose config),
               EvGetSMBLog 1 (SetupSession config) True (smb_Verbose config)]
            \<and> result_of (smb_Scan w config) =
                fst (GetSMBLog w 1 (SetupSession config) True (smb_Verbose config))
            \<and> error_of (smb_Scan w config) =
                snd (GetSMBLog w 1 (SetupSession config) True (smb_Verbose config))
            \<and> status_of (smb_Scan w config) =
                (case snd (GetSMBLog w 1 (SetupSession config) True (smb_Verbose config)) of
                   None \<Rightarrow> SCAN_SUCCESS
                 | Some e2 \<Rightarrow> TryGetScanStatus w e2))"
proof (intro conjI allI impI)
  fix e2 assume r: "Dial w 1 = Some e2"
  show "trace_of (smb_Scan w config) =
              [EvDial 0, EvGetSMBLog 0 (SetupSession config) False (smb_Verbose config),
               EvClose 0, EvDialFailed, EvClose 0]"
    using d g r by (simp add: smb_Scan_def trace_of_def)
  then show "negotiator_calls (trace_of (smb_Scan w config)) =
              [EvGetSMBLog 0 (SetupSession config) False (smb_Verbose config)]"
    by (simp add: negotiator_calls_def)
  show "status_of (smb_Scan w config) = TryGetScanStatus w e2"
    using d g r by (simp add: smb_Scan_def status_of_def)
  show "result_of (smb_Scan w config) = None"
    using d g r by (simp add: smb_Scan_def result_of_def)
  show "error_of (smb_Scan w config) =
                Some (ErrWrap ''could not establish connection to SMB server on 2nd attempt'' e2)"
    using d g r by (simp add: smb_Scan_def error_of_def)
next
  assume r: "Dial w 1 = None"
  obtain r2 e2 where g2: "GetSMBLog w 1 (SetupSession config) True (smb_Verbose config) = (r2, e2)"
    by (cases "GetSMBLog w 1 (SetupSession config) True (smb_Verbose config)")
  show "trace_of (smb_Scan w config) =
              [EvDial 0, EvGetSMBLog 0 (SetupSession config) False (smb_Verbose config),
               EvClose 0,
               EvDial 1, EvGetSMBLog 1 (SetupSession config) True (smb_Verbose config),
               EvClose 1, EvClose 0]"
    using d g r g2 by (simp add: smb_Scan_def trace_of_def Let_def split: option.split)
  then show "negotiator_calls (trace_of (smb_Scan w config)) =
              [EvGetSMBLog 0 (SetupSession config) False (smb_Verbose config),
               EvGetSMBLog 1 (SetupSession config) True (smb_Verbose config)]"
    by (simp add: negotiator_calls_def)
  show "result_of (smb_Scan w config) =
                fst (GetSMBLog w 1 (SetupSession config) True (smb_Verbose config))"
    using d g r g2 by (simp add: smb_Scan_def result_of_def Let_def split: option.split)
  show "error_of (smb_Scan w config) =
                snd (GetSMBLog w 1 (SetupSession config) True (smb_Verbose config))"
    using d g r g2 by (simp add: smb_Scan_def error_of_def Let_def split: option.split)
  show "status_of (smb_Scan w config) =
                (case snd (GetSMBLog w 1 (SetupSession config) True (smb_Verbose config)) of
                   None \<Rightarrow> SCAN_SUCCESS
                 | Some e2 \<Rightarrow> TryGetScanStatus w e2)"
    using d g r g2 by (simp add: smb_Scan_def status_of_def Let_def split: option.split)
qed

lemma smb_retry_trace:
  "trace_of (smb_Scan smb_world_retry smb_quiet) =
     [EvDial 0, EvGetSMBLog 0 False False False, EvClose 0,
      EvDial 1, EvGetSMBLog 1 False True False, EvClose 1, EvClose 0]"
  by (simp add: smb_Scan_def trace_of_def smb_world_retry_def smb_quiet_def)

lemma smb_redial_fails_trace:
  "trace_of (smb_Scan smb_world_redial_fails smb_quiet) =
     [EvDial 0, EvGetSMBLog 0 False False False, EvClose 0, EvDialFailed, EvClose 0]"
  by (simp add: smb_Scan_def trace_of_def smb_world_redial_fails_def smb_quiet_def)

text \<open>
  C1 as stated fails twice. When the second dial fails, the negotiator is called once,
  not twice. When the scanner is not configured verbose, the retry passes verbose false:
  what the retry forces to true is the third argument, not the verbose flag.
\<close>

theorem smb_retry_as_stated_counterexample:
  "Dial smb_world_redial_fails 0 = None
   \<and> GetSMBLog smb_world_redial_fails 0 False False False = (None, Some (ErrOther ''connection reset''))
   \<and> negotiator_calls (trace_of (smb_Scan smb_world_redial_fails smb_quiet)) =
       [EvGetSMBLog 0 False False False]
   \<and> Dial smb_world_retry 0 = None
   \<and> GetSMBLog smb_world_retry 0 False False False = (None, Some (ErrOther ''connection reset''))
   \<and> smb_Verbose smb_quiet = False
   \<and> negotiator_calls (trace_of (smb_Scan smb_world_retry smb_quiet)) =
       [EvGetSMBLog 0 False False False, EvGetSMBLog 1 False True False]"
proof -
  have "negotiator_calls (trace_of (smb_Scan smb_world_redial_fails smb_quiet)) =
       [EvGetSMBLog 0 False False False]"
    by (simp add: smb_redial_fails_trace negotiator_calls_def)
  moreover have "negotiator_calls (trace_of (smb_Scan smb_world_retry smb_quiet)) =
       [EvGetSMBLog 0 False False False, EvGetSMBLog 1 False True False]"
    by (simp add: smb_retry_trace negotiator_calls_def)
  ultimately show ?thesis
    by (simp add: smb_world_retry_def smb_world_redial_fails_def smb_quiet_def)
qed

theorem smb_retry_after_nil_log_witness:
  "Dial smb_world_retry 0 = None
   \<and> GetSMBLog smb_world_retry 0 (SetupSession smb_quiet) False (smb_Verbose smb_quiet)
       = (None, Some (ErrOther ''connection reset''))
   \<and> Dial smb_world_retry 1 = None
   \<and> negotiator_calls (trace_of (smb_Scan smb_world_retry smb_quiet)) =
       [EvGetSMBLog 0 False False False, EvGetSMBLog 1 False True False]
   \<and> result_of (smb_Scan smb_world_retry smb_quiet) = Some ''negotiated''
   \<and> error_of (smb_Scan smb_world_retry smb_quiet) = None
   \<and> status_of (smb_Scan smb_world_retry smb_quiet) = SCAN_SUCCESS
   \<and> Dial smb_world_redial_fails 0 = None
   \<and> GetSMBLog smb_world_redial_fails 0 (SetupSession smb_quiet) False (smb_Verbose smb_quiet)
       = (None, Some (ErrOther ''connection reset''))
   \<and> Dial smb_world_redial_fails 1 = Some (ErrOther ''connection refused'')
   \<and> negotiator_calls (trace_of (smb_Scan smb_world_redial_fails smb_quiet)) =
       [EvGetSMBLog 0 False False False]
   \<and> result_of (smb_Scan smb_world_redial_fails smb_quiet) = None
   \<and> status_of (smb_Scan smb_world_redial_fails smb_quiet) = SCAN_UNKNOWN_ERROR"
proof -
  have f: "SetupSession smb_quiet = False" "smb_Verbose smb_quiet = False"
    by (simp_all add: smb_quiet_def)
  have d1: "Dial smb_world_retry 0 = None"
    by (simp add: smb_world_retry_def)
  have g1: "GetSMBLog smb_world_retry 0 (SetupSession smb_quiet) False (smb_Verbose smb_quiet)
       = (None, Some (ErrOther ''connection reset''))"
    by (simp add: smb_world_retry_def)
  have r1: "Dial smb_world_retry 1 = None"
    by (simp add: smb_world_retry_def)
  have s1: "GetSMBLog smb_world_retry 1 False True False = (Some ''negotiated'', None)"
    by (simp add: smb_world_retry_def)
  have d2: "Dial smb_world_redial_fails 0 = None"
    by (simp add: smb_world_redial_fails_def)
  have g2: "GetSMBLog smb_world_redial_fails 0 (SetupSession smb_quiet) False (smb_Verbose smb_quiet)
       = (None, Some (ErrOther ''connection reset''))"
    by (simp add: smb_world_redial_fails_def)
  have r2: "Dial smb_world_redial_fails 1 = Some (ErrOther ''connection refused'')"
    by (simp add: smb_world_redial_fails_def)
  have u2: "TryGetScanStatus smb_world_redial_fails (ErrOther ''connection refused'') = SCAN_UNKNOWN_ERROR"
    by (simp add: smb_world_redial_fails_def)
  note a = smb_retry_after_nil_log [OF d1 g1, THEN conjunct2, THEN mp, OF r1]
  note b = smb_retry_after_nil_log [OF d2 g2, THEN conjunct1, THEN spec, THEN mp, OF r2]
  show ?thesis
    using a b d1 g1 r1 s1 d2 g2 r2 u2 by (simp add: f negotiator_calls_def)
qed

section \<open>Release of connections\<close>

text \<open>
  C4 (amended). Every connection a scan opens is closed before the scan returns, on every
  exit path. The MSSQL and Telnet scans close their connection exactly once, as their
  last action. The SMB scan closes every connection exactly once, except on the retry
  path (first negotiator call failing with a nil log), where the first connection is
  closed twice: once explicitly before the second dial, once by the deferred close.
\<close>

theorem connections_released:
  "(\<forall>c. EvDial c \<in> set (trace_of (mssql_Scan wm cm)) \<longrightarrow>
        closes (trace_of (mssql_Scan wm cm)) c = 1
        \<and> last (trace_of (mssql_Scan wm cm)) = EvClose c)
   \<and> (\<forall>c. EvDial c \<in> set (trace_of (telnet_Scan wt ct)) \<longrightarrow>
        closes (trace_of (telnet_Scan wt ct)) c = 1
        \<and> last (trace_of (telnet_Scan wt ct)) = EvClose c)
   \<and> (\<forall>c. EvDial c \<in> set (trace_of (smb_Scan ws cs)) \<longrightarrow>
        closes (trace_of (smb_Scan ws cs)) c = (if c = 0 \<and> smb_retried ws cs then 2 else 1))"
proof (intro conjI)
  show "\<forall>c. EvDial c \<in> set (trace_of (mssql_Scan wm cm)) \<longrightarrow>
        closes (trace_of (mssql_Scan wm cm)) c = 1
        \<and> last (trace_of (mssql_Scan wm cm)) = EvClose c"
    by (auto simp: mssql_Scan_def trace_of_def closes_def Let_def
        split: option.splits prod.splits if_splits)
  show "\<forall>c. EvDial c \<in> set (trace_of (telnet_Scan wt ct)) \<longrightarrow>
        closes (trace_of (telnet_Scan wt ct)) c = 1
        \<and> last (trace_of (telnet_Scan wt ct)) = EvClose c"
    by (auto simp: telnet_Scan_def trace_of_def closes_def Let_def
        split: option.splits prod.splits if_splits)
  show "\<forall>c. EvDial c \<in> set (trace_of (smb_Scan ws cs)) \<longrightarrow>
        closes (trace_of (smb_Scan ws cs)) c = (if c = 0 \<and> smb_retried ws cs then 2 else 1)"
    by (auto simp: smb_Scan_def smb_retried_def trace_of_def closes_def Let_def
        split: option.splits prod.splits if_splits)
qed

text \<open>
  C4 as stated fails on the SMB retry path: the first connection is closed twice.
\<close>

theorem smb_first_connection_closed_twice_counterexample:
  "EvDial 0 \<in> set (trace_of (smb_Scan smb_world_retry smb_quiet))
   \<and> closes (trace_of (smb_Scan smb_world_retry smb_quiet)) 0 = 2"
  by (simp add: smb_retry_trace closes_def)

theorem connections_released_witness:
  "EvDial 0 \<in> set (trace_of (mssql_Scan (mssql_world_of peer_not_mssql) mssql_on))
   \<and> closes (trace_of (mssql_Scan (mssql_world_of peer_not_mssql) mssql_on)) 0 = 1
   \<and> last (trace_of (mssql_Scan (mssql_world_of peer_not_mssql) mssql_on)) = EvClose 0
   \<and> EvDial 0 \<in> set (trace_of (telnet_Scan (telnet_world_of ''hello'' EOF) (telnet_flags 3 False)))
   \<and> closes (trace_of (telnet_Scan (telnet_world_of ''hello'' EOF) (telnet_flags 3 False))) 0 = 1
   \<and> last (trace_of (telnet_Scan (telnet_world_of ''hello'' EOF) (telnet_flags 3 False))) = EvClose 0
   \<and> EvDial 0 \<in> set (trace_of (smb_Scan smb_world_retry smb_quiet))
   \<and> smb_retried smb_world_retry smb_quiet
   \<and> closes (trace_of (smb_Scan smb_world_retry smb_quiet)) 0 = 2
   \<and> EvDial 1 \<in> set (trace_of (smb_Scan smb_world_retry smb_quiet))
   \<and> closes (trace_of (smb_Scan smb_world_retry smb_quiet)) 1 = 1
   \<and> EvDial 0 \<in> set (trace_of (smb_Scan smb_world_partial smb_quiet))
   \<and> \<not> smb_retried smb_world_partial smb_quiet
   \<and> closes (trace_of (smb_Scan smb_world_partial smb_quiet)) 0 = 1"
proof -
  have m: "EvDial 0 \<in> set (trace_of (mssql_Scan (mssql_world_of peer_not_mssql) mssql_on))"
    by (simp add: mssql_Scan_def trace_of_def mssql_world_of_def Let_def split: prod.split option.split)
  have t: "EvDial 0 \<in> set (trace_of (telnet_Scan (telnet_world_of ''hello'' EOF) (telnet_flags 3 False)))"
    by (simp add: telnet_Scan_def trace_of_def telnet_world_of_def Let_def split: prod.split option.split)
  have s0: "EvDial 0 \<in> set (trace_of (smb_Scan smb_world_retry smb_quiet))"
    and s1: "EvDial 1 \<in> set (trace_of (smb_Scan smb_world_retry smb_quiet))"
    by (simp_all add: smb_retry_trace)
  have r: "smb_retried smb_world_retry smb_quiet"
    by (simp add: smb_retried_def smb_world_retry_def smb_quiet_def)
  have p0: "EvDial 0 \<in> set (trace_of (smb_Scan smb_world_partial smb_quiet))"
    by (simp add: smb_Scan_def trace_of_def smb_world_partial_def smb_quiet_def)
  have np: "\<not> smb_retried smb_world_partial smb_quiet"
    by (simp add: smb_retried_def smb_world_partial_def smb_quiet_def)
  note a = connections_released
    [of "mssql_world_of peer_not_mssql" mssql_on "telnet_world_of ''hello'' EOF" "telnet_flags 3 False"
        smb_world_retry smb_quiet]
  note b = connections_released
    [of "mssql_world_of peer_not_mssql" mssql_on "telnet_world_of ''hello'' EOF" "telnet_flags 3 False"
        smb_world_partial smb_quiet]
  show ?thesis
    using a b m t s0 s1 r p0 np by auto
qed

section \<open>Properties of the MSSQL scanner\<close>

text \<open>
  C9. When the dialer group has no L4 dialer, the MSSQL scan returns the invalid-input
  status with a nil result and a non-nil error, and nothing is dialed: the scan has no
  observable effect at all.
\<close>

theorem mssql_missing_l4_dialer:
  assumes "L4Dialer w = None"
  shows "status_of (mssql_Scan w config) = SCAN_INVALID_INPUTS
         \<and> result_of (mssql_Scan w config) = None
         \<and> error_of (mssql_Scan w config) = Some (ErrOther ''l4 dialer is required for mssql'')
         \<and> trace_of (mssql_Scan w config) = []"
  using assms by (simp add: mssql_Scan_def scan_return_defs)

theorem mssql_missing_l4_dialer_witness:
  "L4Dialer (mssql_world_no_l4 peer_not_supported) = None
   \<and> status_of (mssql_Scan (mssql_world_no_l4 peer_not_supported) mssql_on) = SCAN_INVALID_INPUTS
   \<and> result_of (mssql_Scan (mssql_world_no_l4 peer_not_supported) mssql_on) = None
   \<and> error_of (mssql_Scan (mssql_world_no_l4 peer_not_supported) mssql_on) =
       Some (ErrOther ''l4 dialer is required for mssql'')
   \<and> trace_of (mssql_Scan (mssql_world_no_l4 peer_not_supported) mssql_on) = []"
proof -
  have l: "L4Dialer (mssql_world_no_l4 peer_not_supported) = None"
    by (simp add: mssql_world_no_l4_def)
  show ?thesis
    using l mssql_missing_l4_dialer [OF l, of mssql_on] by simp
qed

lemma mssql_Scan_after_dial:
  assumes "L4Dialer w = Some l4Dialer"
    and "l4Dialer 0 = None"
    and "Handshake w (NewConnection 0) (flag_EncryptMode config) = ((mode, herr), sql, wire)"
  shows "mssql_Scan w config =
           ((case herr of
               None \<Rightarrow> (SCAN_SUCCESS, Some (fill_result w mode sql), None)
             | Some e \<Rightarrow>
                 (if errors_Is e ErrNoServerEncryption \<or> errors_Is e ErrServerRequiresEncryption
                  then SCAN_APPLICATION_ERROR else TryGetScanStatus w e,
                  if PreloginOptions sql = None \<and> \<not> readValidTDSPacket sql
                  then None else Some (fill_result w mode sql),
                  Some e)),
            [EvDial 0, EvHandshake 0 wire, EvClose 0])"
  using assms by (simp add: mssql_Scan_def Let_def split: option.split)

text \<open>
  C2. When the connection is established and the handshake returns an error, the result
  attached to the error is nil if and only if no prelogin options were decoded and no
  inbound packet had a valid TDS header; otherwise the result as filled in so far
  (possibly empty) is attached. The error returned is the handshake's.
\<close>

theorem mssql_result_nil_iff:
  assumes "L4Dialer w = Some l4Dialer"
    and "l4Dialer 0 = None"
    and "Handshake w (NewConnection 0) (flag_EncryptMode config) = ((mode, Some herr), sql, wire)"
  shows "(result_of (mssql_Scan w config) = None
            \<longleftrightarrow> (PreloginOptions sql = None \<and> \<not> readValidTDSPacket sql))
         \<and> (result_of (mssql_Scan w config) = None
              \<or> result_of (mssql_Scan w config) = Some (fill_result w mode sql))
         \<and> error_of (mssql_Scan w config) = Some herr"
  by (simp add: mssql_Scan_after_dial [OF assms] scan_return_defs)

theorem mssql_result_nil_iff_witness:
  "L4Dialer (mssql_world_of peer_not_mssql) = Some dial_ok
   \<and> dial_ok 0 = None
   \<and> Handshake (mssql_world_of peer_not_mssql) (NewConnection 0) (flag_EncryptMode mssql_on) =
       ((EncryptModeUnknown, Some (ErrOther ''not a valid TDS header'')), NewConnection 0,
        [SentPrelogin EncryptModeOn, ReadPreloginResponse])
   \<and> PreloginOptions (NewConnection 0) = None
   \<and> readValidTDSPacket (NewConnection 0) = False
   \<and> result_of (mssql_Scan (mssql_world_of peer_not_mssql) mssql_on) = None
   \<and> error_of (mssql_Scan (mssql_world_of peer_not_mssql) mssql_on) =
       Some (ErrOther ''not a valid TDS header'')
   \<and> L4Dialer (mssql_world_of peer_bad_options) = Some dial_ok
   \<and> Handshake (mssql_world_of peer_bad_options) (NewConnection 0) (flag_EncryptMode mssql_on) =
       ((EncryptModeUnknown, Some (ErrOther ''prelogin option out of bounds'')),
        (NewConnection 0)\<lparr>readValidTDSPacket := True\<rparr>,
        [SentPrelogin EncryptModeOn, ReadPreloginResponse])
   \<and> result_of (mssql_Scan (mssql_world_of peer_bad_options) mssql_on) =
       Some (empty_ScanResults\<lparr>result_EncryptMode := Some EncryptModeUnknown\<rparr>)"
proof -
  have l1: "L4Dialer (mssql_world_of peer_not_mssql) = Some dial_ok"
    by (simp add: mssql_world_of_def)
  have l2: "L4Dialer (mssql_world_of peer_bad_options) = Some dial_ok"
    by (simp add: mssql_world_of_def)
  have d: "dial_ok 0 = None"
    by simp
  have h1: "Handshake (mssql_world_of peer_not_mssql) (NewConnection 0) (flag_EncryptMode mssql_on) =
       ((EncryptModeUnknown, Some (ErrOther ''not a valid TDS header'')), NewConnection 0,
        [SentPrelogin EncryptModeOn, ReadPreloginResponse])"
    by (simp add: mssql_world_of_def Handshake_spec_def peer_not_mssql_def mssql_on_def
        getEncryptMode_def)
  have h2: "Handshake (mssql_world_of peer_bad_options) (NewConnection 0) (flag_EncryptMode mssql_on) =
       ((EncryptModeUnknown, Some (ErrOther ''prelogin option out of bounds'')),
        (NewConnection 0)\<lparr>readValidTDSPacket := True\<rparr>,
        [SentPrelogin EncryptModeOn, ReadPreloginResponse])"
    by (simp add: mssql_world_of_def Handshake_spec_def peer_bad_options_def mssql_on_def
        getEncryptMode_def)
  have n: "PreloginOptions (NewConnection 0) = None" "readValidTDSPacket (NewConnection 0) = False"
    by (simp_all add: NewConnection_def)
  have f: "fill_result (mssql_world_of peer_bad_options) EncryptModeUnknown
             ((NewConnection 0)\<lparr>readValidTDSPacket := True\<rparr>) =
           empty_ScanResults\<lparr>result_EncryptMode := Some EncryptModeUnknown\<rparr>"
    by (simp add: fill_result_def NewConnection_def)
  note a = mssql_result_nil_iff [OF l1 d h1]
  note b = mssql_result_nil_iff [OF l2 d h2]
  show ?thesis
    using a b l1 l2 d h1 h2 n f by auto
qed

text \<open>
  C3. When the handshake fails with an error that is (or wraps) one of the sentinels
  \<open>ErrNoServerEncryption\<close> and \<open>ErrServerRequiresEncryption\<close>, the scan returns the
  application-error status, whatever the classifier would say of the error, together
  with that error. With the handshake of the specification, when the client requested ON
  and the server's ENCRYPTION option is NOT_SUPPORTED, the scan returns
  \<open>ErrNoServerEncryption\<close> with a non-nil result whose encrypt mode is the server's.
\<close>

theorem mssql_encryption_sentinels:
  "(L4Dialer w = Some l4Dialer \<and> l4Dialer 0 = None
      \<and> Handshake w (NewConnection 0) (flag_EncryptMode config) = ((mode, Some herr), sql, wire)
      \<and> (errors_Is herr ErrNoServerEncryption \<or> errors_Is herr ErrServerRequiresEncryption)
    \<longrightarrow> status_of (mssql_Scan w config) = SCAN_APPLICATION_ERROR
        \<and> error_of (mssql_Scan w config) = Some herr)
   \<and> (L4Dialer w = Some l4Dialer \<and> l4Dialer 0 = None
      \<and> Handshake w = Handshake_spec peer
      \<and> preloginWrite peer = None \<and> preloginReply peer = ReplyOptions opts
      \<and> getEncryptMode (flag_EncryptMode config) = EncryptModeOn
      \<and> serverEncryptMode peer opts = EncryptModeNotSupported
    \<longrightarrow> status_of (mssql_Scan w config) = SCAN_APPLICATION_ERROR
        \<and> error_of (mssql_Scan w config) = Some ErrNoServerEncryption
        \<and> map_option result_EncryptMode (result_of (mssql_Scan w config)) =
            Some (Some (serverEncryptMode peer opts)))"
proof (intro conjI impI)
  assume a: "L4Dialer w = Some l4Dialer \<and> l4Dialer 0 = None
      \<and> Handshake w (NewConnection 0) (flag_EncryptMode config) = ((mode, Some herr), sql, wire)
      \<and> (errors_Is herr ErrNoServerEncryption \<or> errors_Is herr ErrServerRequiresEncryption)"
  then have s: "mssql_Scan w config =
           ((SCAN_APPLICATION_ERROR,
             if PreloginOptions sql = None \<and> \<not> readValidTDSPacket sql
             then None else Some (fill_result w mode sql),
             Some herr),
            [EvDial 0, EvHandshake 0 wire, EvClose 0])"
    using mssql_Scan_after_dial [of w l4Dialer config mode "Some herr" sql wire] by simp
  show "status_of (mssql_Scan w config) = SCAN_APPLICATION_ERROR"
    by (simp add: s status_of_def)
  show "error_of (mssql_Scan w config) = Some herr"
    by (simp add: s error_of_def)
next
  assume a: "L4Dialer w = Some l4Dialer \<and> l4Dialer 0 = None
      \<and> Handshake w = Handshake_spec peer
      \<and> preloginWrite peer = None \<and> preloginReply peer = ReplyOptions opts
      \<and> getEncryptMode (flag_EncryptMode config) = EncryptModeOn
      \<and> serverEncryptMode peer opts = EncryptModeNotSupported"
  define sql where
    "sql = (NewConnection 0)\<lparr>PreloginOptions := Some opts, readValidTDSPacket := True\<rparr>"
  have h: "Handshake w (NewConnection 0) (flag_EncryptMode config) =
             ((EncryptModeNotSupported, Some ErrNoServerEncryption), sql,
              [SentPrelogin EncryptModeOn, ReadPreloginResponse])"
    using a by (simp add: Handshake_spec_def sql_def)
  have s: "mssql_Scan w config =
           ((SCAN_APPLICATION_ERROR, Some (fill_result w EncryptModeNotSupported sql),
             Some ErrNoServerEncryption),
            [EvDial 0, EvHandshake 0 [SentPrelogin EncryptModeOn, ReadPreloginResponse], EvClose 0])"
    using a mssql_Scan_after_dial [of w l4Dialer config _ _ _ _, OF _ _ h]
    by (simp add: sql_def)
  have f: "result_EncryptMode (fill_result w EncryptModeNotSupported sql) =
             Some EncryptModeNotSupported"
    by (simp add: fill_result_def empty_ScanResults_def Let_def split: option.split)
  show "status_of (mssql_Scan w config) = SCAN_APPLICATION_ERROR"
    by (simp add: s status_of_def)
  show "error_of (mssql_Scan w config) = Some ErrNoServerEncryption"
    by (simp add: s error_of_def)
  show "map_option result_EncryptMode (result_of (mssql_Scan w config)) =
            Some (Some (serverEncryptMode peer opts))"
    using a by (simp add: s result_of_def f)
qed

lemma handshake_required_tls_fails:
  "Handshake (mssql_world_of peer_required_tls_fails) (NewConnection 0) (flag_EncryptMode mssql_on) =
     ((EncryptModeRequired, Some ErrServerRequiresEncryption),
      (NewConnection 0)\<lparr>PreloginOptions := Some options_required_no_instance,
                          readValidTDSPacket := True,
                          tlsConn := Some (TLSConnection None)\<rparr>,
      [SentPrelogin EncryptModeOn, ReadPreloginResponse, SentTLSBytes ''client hello''])"
  by (simp add: mssql_world_of_def Handshake_spec_def peer_required_tls_fails_def mssql_on_def
      getEncryptMode_def serverEncryptMode_def options_required_no_instance_def)

lemma server_mode_not_supported:
  "serverEncryptMode peer_not_supported options_not_supported = EncryptModeNotSupported"
  by (simp add: serverEncryptMode_def peer_not_supported_def options_not_supported_def)

lemma client_mode_on: "getEncryptMode (flag_EncryptMode mssql_on) = EncryptModeOn"
  by (simp add: getEncryptMode_def mssql_on_def)

theorem mssql_encryption_sentinels_witness:
  "L4Dialer (mssql_world_of peer_required_tls_fails) = Some dial_ok
   \<and> dial_ok 0 = None
   \<and> Handshake (mssql_world_of peer_required_tls_fails) (NewConnection 0) (flag_EncryptMode mssql_on) =
       ((EncryptModeRequired, Some ErrServerRequiresEncryption),
        (NewConnection 0)\<lparr>PreloginOptions := Some options_required_no_instance,
                            readValidTDSPacket := True,
                            tlsConn := Some (TLSConnection None)\<rparr>,
        [SentPrelogin EncryptModeOn, ReadPreloginResponse, SentTLSBytes ''client hello''])
   \<and> errors_Is ErrServerRequiresEncryption ErrServerRequiresEncryption
   \<and> status_of (mssql_Scan (mssql_world_of peer_required_tls_fails) mssql_on) = SCAN_APPLICATION_ERROR
   \<and> error_of (mssql_Scan (mssql_world_of peer_required_tls_fails) mssql_on) =
       Some ErrServerRequiresEncryption
   \<and> L4Dialer (mssql_world_of peer_not_supported) = Some dial_ok
   \<and> Handshake (mssql_world_of peer_not_supported) = Handshake_spec peer_not_supported
   \<and> preloginWrite peer_not_supported = None
   \<and> preloginReply peer_not_supported = ReplyOptions options_not_supported
   \<and> getEncryptMode (flag_EncryptMode mssql_on) = EncryptModeOn
   \<and> serverEncryptMode peer_not_supported options_not_supported = EncryptModeNotSupported
   \<and> status_of (mssql_Scan (mssql_world_of peer_not_supported) mssql_on) = SCAN_APPLICATION_ERROR
   \<and> error_of (mssql_Scan (mssql_world_of peer_not_supported) mssql_on) = Some ErrNoServerEncryption
   \<and> map_option result_EncryptMode (result_of (mssql_Scan (mssql_world_of peer_not_supported) mssql_on)) =
       Some (Some EncryptModeNotSupported)"
proof -
  have l1: "L4Dialer (mssql_world_of peer_required_tls_fails) = Some dial_ok"
    and l2: "L4Dialer (mssql_world_of peer_not_supported) = Some dial_ok"
    and hs: "Handshake (mssql_world_of peer_not_supported) = Handshake_spec peer_not_supported"
    by (simp_all add: mssql_world_of_def)
  have d: "dial_ok 0 = None"
    by simp
  have p: "preloginWrite peer_not_supported = None"
    "preloginReply peer_not_supported = ReplyOptions options_not_supported"
    by (simp_all add: peer_not_supported_def)
  have e: "errors_Is ErrServerRequiresEncryption ErrServerRequiresEncryption"
    by simp
  note a = mssql_encryption_sentinels
    [of "mssql_world_of peer_required_tls_fails" dial_ok mssql_on EncryptModeRequired
        ErrServerRequiresEncryption _ _ peer_not_supported options_not_supported,
     THEN conjunct1, THEN mp, OF conjI [OF l1 conjI [OF d conjI [OF handshake_required_tls_fails disjI2 [OF e]]]]]
  note b = mssql_encryption_sentinels
    [of "mssql_world_of peer_not_supported" dial_ok mssql_on EncryptModeRequired
        ErrServerRequiresEncryption _ _ peer_not_supported options_not_supported,
     THEN conjunct2, THEN mp,
     OF conjI [OF l2 conjI [OF d conjI [OF hs conjI [OF p(1) conjI [OF p(2)
        conjI [OF client_mode_on server_mode_not_supported]]]]]]]
  show ?thesis
    using a b l1 l2 hs d p e handshake_required_tls_fails client_mode_on server_mode_not_supported
    by simp
qed

text \<open>
  C5. In the handshake of the specification, when the PRELOGIN exchange succeeds and the
  server's ENCRYPTION option is NOT_SUPPORTED, the TLS phase is skipped: the only things
  done on the wire are sending PRELOGIN and reading its response, no TLS handshake bytes
  are sent, no TLS connection is set up, and the handshake returns at that point with the
  server's mode (with \<open>ErrNoServerEncryption\<close> when the client had requested ON, and
  with no error otherwise). The scan around it then adds nothing but the dial and the
  close.
\<close>

theorem handshake_not_supported_skips_tls:
  assumes "preloginWrite peer = None"
    and "preloginReply peer = ReplyOptions opts"
    and "opts PreloginEncryption = Some v"
    and "decodeEncryptMode peer v = EncryptModeNotSupported"
  shows "snd (snd (Handshake_spec peer sql flag)) =
           [SentPrelogin (getEncryptMode flag), ReadPreloginResponse]
         \<and> filter is_SentTLSBytes (snd (snd (Handshake_spec peer sql flag))) = []
         \<and> tlsConn (fst (snd (Handshake_spec peer sql flag))) = tlsConn sql
         \<and> fst (Handshake_spec peer sql flag) =
             (EncryptModeNotSupported,
              if getEncryptMode flag = EncryptModeOn then Some ErrNoServerEncryption else None)
         \<and> trace_of (mssql_Scan (mssql_world_of peer) config) =
             [EvDial 0,
              EvHandshake 0 [SentPrelogin (getEncryptMode (flag_EncryptMode config)), ReadPreloginResponse],
              EvClose 0]"
proof -
  have m: "serverEncryptMode peer opts = EncryptModeNotSupported"
    using assms by (simp add: serverEncryptMode_def)
  have h: "Handshake_spec peer s f =
             ((EncryptModeNotSupported,
               if getEncryptMode f = EncryptModeOn then Some ErrNoServerEncryption else None),
              s\<lparr>PreloginOptions := Some opts, readValidTDSPacket := True\<rparr>,
              [SentPrelogin (getEncryptMode f), ReadPreloginResponse])" for s f
    using assms m by (simp add: Handshake_spec_def)
  have t: "trace_of (mssql_Scan (mssql_world_of peer) config) =
             [EvDial 0,
              EvHandshake 0 [SentPrelogin (getEncryptMode (flag_EncryptMode config)), ReadPreloginResponse],
              EvClose 0]"
  proof -
    have l: "L4Dialer (mssql_world_of peer) = Some dial_ok"
      by (simp add: mssql_world_of_def)
    have d: "dial_ok 0 = None"
      by simp
    have h': "Handshake (mssql_world_of peer) (NewConnection 0) (flag_EncryptMode config) =
             ((EncryptModeNotSupported,
               if getEncryptMode (flag_EncryptMode config) = EncryptModeOn
               then Some ErrNoServerEncryption else None),
              (NewConnection 0)\<lparr>PreloginOptions := Some opts, readValidTDSPacket := True\<rparr>,
              [SentPrelogin (getEncryptMode (flag_EncryptMode config)), ReadPreloginResponse])"
      by (simp add: mssql_world_of_def h)
    show ?thesis
      by (simp add: mssql_Scan_after_dial [OF l d h'] trace_of_def)
  qed
  show ?thesis
    using t by (simp add: h)
qed

theorem handshake_not_supported_skips_tls_witness:
  "preloginWrite peer_not_supported = None
   \<and> preloginReply peer_not_supported = ReplyOptions options_not_supported
   \<and> options_not_supported PreloginEncryption = Some [CHR 0x02]
   \<and> decodeEncryptMode peer_not_supported [CHR 0x02] = EncryptModeNotSupported
   \<and> snd (snd (Handshake_spec peer_not_supported (NewConnection 0) ''ENCRYPT_OFF'')) =
       [SentPrelogin EncryptModeOff, ReadPreloginResponse]
   \<and> filter is_SentTLSBytes
       (snd (snd (Handshake_spec peer_not_supported (NewConnection 0) ''ENCRYPT_OFF''))) = []
   \<and> tlsConn (fst (snd (Handshake_spec peer_not_supported (NewConnection 0) ''ENCRYPT_OFF''))) = None
   \<and> fst (Handshake_spec peer_not_supported (NewConnection 0) ''ENCRYPT_OFF'') =
       (EncryptModeNotSupported, None)
   \<and> trace_of (mssql_Scan (mssql_world_of peer_not_supported) mssql_not_sup) =
       [EvDial 0, EvHandshake 0 [SentPrelogin EncryptModeNotSupported, ReadPreloginResponse],
        EvClose 0]"
proof -
  have p: "preloginWrite peer_not_supported = None"
    "preloginReply peer_not_supported = ReplyOptions options_not_supported"
    "decodeEncryptMode peer_not_supported [CHR 0x02] = EncryptModeNotSupported"
    by (simp_all add: peer_not_supported_def)
  have o: "options_not_supported PreloginEncryption = Some [CHR 0x02]"
    by (simp add: options_not_supported_def)
  have g: "getEncryptMode ''ENCRYPT_OFF'' = EncryptModeOff"
    "getEncryptMode (flag_EncryptMode mssql_not_sup) = EncryptModeNotSupported"
    by (simp_all add: getEncryptMode_def mssql_not_sup_def)
  have n: "tlsConn (NewConnection 0) = None"
    by (simp add: NewConnection_def)
  note a = handshake_not_supported_skips_tls
    [OF p(1) p(2) o p(3), of "NewConnection 0" "''ENCRYPT_OFF''" mssql_not_sup]
  show ?thesis
    using a p o g n by simp
qed

text \<open>
  What trimming does: the result is the input without a prefix and a suffix made of
  cutset bytes only, and it neither starts nor ends with a cutset byte.
\<close>

lemma trimRight_decomp:
  "\<exists>suf. s = trimRight s cs @ suf \<and> set suf \<subseteq> set cs"
proof -
  let ?P = "\<lambda>c. c \<in> set cs"
  have "rev (takeWhile ?P (rev s) @ dropWhile ?P (rev s)) = rev (rev s)"
    by (simp only: takeWhile_dropWhile_id)
  then have "rev (dropWhile ?P (rev s)) @ rev (takeWhile ?P (rev s)) = s"
    by (simp only: rev_append rev_rev_ident)
  then have "s = trimRight s cs @ rev (takeWhile ?P (rev s))"
    by (simp only: trimRight_def)
  moreover have "set (rev (takeWhile ?P (rev s))) \<subseteq> set cs"
    by (auto dest: set_takeWhileD)
  ultimately show ?thesis by blast
qed

lemma trimLeft_decomp:
  "\<exists>pre. s = pre @ trimLeft s cs \<and> set pre \<subseteq> set cs"
proof -
  let ?P = "\<lambda>c. c \<in> set cs"
  have "s = takeWhile ?P s @ trimLeft s cs"
    by (simp add: trimLeft_def)
  moreover have "set (takeWhile ?P s) \<subseteq> set cs"
    by (auto dest: set_takeWhileD)
  ultimately show ?thesis by blast
qed

lemma trimRight_last:
  "trimRight s cs \<noteq> [] \<Longrightarrow> last (trimRight s cs) \<notin> set cs"
  using hd_dropWhile [of "\<lambda>c. c \<in> set cs" "rev s"]
  by (simp add: trimRight_def last_rev)

lemma trimLeft_hd:
  "trimLeft s cs \<noteq> [] \<Longrightarrow> hd (trimLeft s cs) \<notin> set cs"
  using hd_dropWhile [of "\<lambda>c. c \<in> set cs" s]
  by (simp add: trimLeft_def)

lemma trimLeft_last:
  "trimLeft s cs \<noteq> [] \<Longrightarrow> last (trimLeft s cs) = last s"
proof -
  assume n: "trimLeft s cs \<noteq> []"
  have "s = takeWhile (\<lambda>c. c \<in> set cs) s @ trimLeft s cs"
    by (simp add: trimLeft_def)
  then have "last s = last (takeWhile (\<lambda>c. c \<in> set cs) s @ trimLeft s cs)"
    by simp
  with n show ?thesis by simp
qed

lemma strings_Trim_decomp:
  "\<exists>pre suf. s = pre @ strings_Trim s cs @ suf \<and> set pre \<subseteq> set cs \<and> set suf \<subseteq> set cs"
proof -
  obtain suf where a: "s = trimRight s cs @ suf" "set suf \<subseteq> set cs"
    using trimRight_decomp by blast
  obtain pre where b: "trimRight s cs = pre @ trimLeft (trimRight s cs) cs" "set pre \<subseteq> set cs"
    using trimLeft_decomp by blast
  have "s = pre @ strings_Trim s cs @ suf"
    using a(1) b(1) unfolding strings_Trim_def by (metis append_assoc)
  with a(2) b(2) show ?thesis by blast
qed

lemma strings_Trim_ends:
  assumes "strings_Trim s cs \<noteq> []"
  shows "hd (strings_Trim s cs) \<notin> set cs \<and> last (strings_Trim s cs) \<notin> set cs"
proof -
  have n: "trimLeft (trimRight s cs) cs \<noteq> []"
    using assms by (simp add: strings_Trim_def)
  then have m: "trimRight s cs \<noteq> []"
    by (auto simp: trimLeft_def)
  have "last (trimLeft (trimRight s cs) cs) = last (trimRight s cs)"
    using n by (rule trimLeft_last)
  with trimRight_last [OF m] trimLeft_hd [OF n] show ?thesis
    by (simp add: strings_Trim_def)
qed

lemma trim_sqlexpress:
  "strings_Trim (''SQLEXPRESS'' @ [CHR 0x00]) instance_cutset = ''SQLEXPRESS''"
  by (simp add: strings_Trim_def trimLeft_def trimRight_def instance_cutset_def)

text \<open>
  C7. In every scan whose handshake leaves decoded prelogin options, the result is
  non-nil and its instance name is non-nil exactly when the options contain an INSTANCE
  entry. The name is then the entry's bytes with NUL, CR and LF trimmed from both ends:
  the bytes are a run of such characters, the name, and another run of such characters,
  and the name neither starts nor ends with one of them.
\<close>

theorem mssql_instance_name:
  assumes "L4Dialer w = Some l4Dialer"
    and "l4Dialer 0 = None"
    and "Handshake w (NewConnection 0) (flag_EncryptMode config) = ((mode, herr), sql, wire)"
    and "PreloginOptions sql = Some opts"
  shows "\<exists>r. result_of (mssql_Scan w config) = Some r
           \<and> (InstanceName r = None \<longleftrightarrow> opts PreloginInstance = None)
           \<and> InstanceName r = map_option (\<lambda>name. strings_Trim name instance_cutset) (opts PreloginInstance)
           \<and> (\<forall>name. opts PreloginInstance = Some name \<longrightarrow>
                (\<exists>t pre suf. InstanceName r = Some t \<and> name = pre @ t @ suf
                   \<and> set pre \<subseteq> {CHR 0x00, CHR 0x0D, CHR 0x0A}
                   \<and> set suf \<subseteq> {CHR 0x00, CHR 0x0D, CHR 0x0A}
                   \<and> (t \<noteq> [] \<longrightarrow> hd t \<notin> {CHR 0x00, CHR 0x0D, CHR 0x0A}
                                  \<and> last t \<notin> {CHR 0x00, CHR 0x0D, CHR 0x0A})))"
proof -
  let ?r = "fill_result w mode sql"
  have r: "result_of (mssql_Scan w config) = Some ?r"
    using assms(4)
    by (simp add: mssql_Scan_after_dial [OF assms(1-3)] result_of_def split: option.split)
  have i: "InstanceName ?r = map_option (\<lambda>name. strings_Trim name instance_cutset) (opts PreloginInstance)"
    using assms(4) by (simp add: fill_result_def Let_def empty_ScanResults_def split: option.split)
  have c: "set instance_cutset = {CHR 0x00, CHR 0x0D, CHR 0x0A}"
    by (simp add: instance_cutset_def)
  have t: "\<exists>t pre suf. InstanceName ?r = Some t \<and> name = pre @ t @ suf
                   \<and> set pre \<subseteq> {CHR 0x00, CHR 0x0D, CHR 0x0A}
                   \<and> set suf \<subseteq> {CHR 0x00, CHR 0x0D, CHR 0x0A}
                   \<and> (t \<noteq> [] \<longrightarrow> hd t \<notin> {CHR 0x00, CHR 0x0D, CHR 0x0A}
                                  \<and> last t \<notin> {CHR 0x00, CHR 0x0D, CHR 0x0A})"
    if n: "opts PreloginInstance = Some name" for name
  proof -
    obtain pre suf where d: "name = pre @ strings_Trim name instance_cutset @ suf"
      "set pre \<subseteq> set instance_cutset" "set suf \<subseteq> set instance_cutset"
      using strings_Trim_decomp by blast
    have "InstanceName ?r = Some (strings_Trim name instance_cutset)"
      using i n by simp
    with d strings_Trim_ends [of name instance_cutset] show ?thesis
      unfolding c by blast
  qed
  show ?thesis
  proof (intro exI [of _ ?r] conjI allI impI)
    show "result_of (mssql_Scan w config) = Some ?r"
      by (rule r)
    show "InstanceName ?r = None \<longleftrightarrow> opts PreloginInstance = None"
      using i by simp
    show "InstanceName ?r = map_option (\<lambda>name. strings_Trim name instance_cutset) (opts PreloginInstance)"
      by (rule i)
    fix name assume "opts PreloginInstance = Some name"
    then show "\<exists>t pre suf. InstanceName ?r = Some t \<and> name = pre @ t @ suf
                   \<and> set pre \<subseteq> {CHR 0x00, CHR 0x0D, CHR 0x0A}
                   \<and> set suf \<subseteq> {CHR 0x00, CHR 0x0D, CHR 0x0A}
                   \<and> (t \<noteq> [] \<longrightarrow> hd t \<notin> {CHR 0x00, CHR 0x0D, CHR 0x0A}
                                  \<and> last t \<notin> {CHR 0x00, CHR 0x0D, CHR 0x0A})"
      by (rule t)
  qed
qed

lemma handshake_on_sqlexpress:
  "Handshake (mssql_world_of peer_on_sqlexpress) (NewConnection 0) (flag_EncryptMode mssql_on) =
     ((EncryptModeOn, None),
      (NewConnection 0)\<lparr>PreloginOptions := Some options_on_sqlexpress,
                          readValidTDSPacket := True,
                          tlsConn := Some (TLSConnection (Some ''tls log''))\<rparr>,
      [SentPrelogin EncryptModeOn, ReadPreloginResponse,
       SentTLSBytes ''client hello'', SentTLSBytes ''client key exchange''])"
  by (simp add: mssql_world_of_def Handshake_spec_def peer_on_sqlexpress_def mssql_on_def
      getEncryptMode_def serverEncryptMode_def options_on_sqlexpress_def)

theorem mssql_instance_name_witness:
  "L4Dialer (mssql_world_of peer_on_sqlexpress) = Some dial_ok
   \<and> dial_ok 0 = None
   \<and> Handshake (mssql_world_of peer_on_sqlexpress) (NewConnection 0) (flag_EncryptMode mssql_on) =
     ((EncryptModeOn, None),
      (NewConnection 0)\<lparr>PreloginOptions := Some options_on_sqlexpress,
                          readValidTDSPacket := True,
                          tlsConn := Some (TLSConnection (Some ''tls log''))\<rparr>,
      [SentPrelogin EncryptModeOn, ReadPreloginResponse,
       SentTLSBytes ''client hello'', SentTLSBytes ''client key exchange''])
   \<and> PreloginOptions ((NewConnection 0)\<lparr>PreloginOptions := Some options_on_sqlexpress,
                          readValidTDSPacket := True,
                          tlsConn := Some (TLSConnection (Some ''tls log''))\<rparr>) =
       Some options_on_sqlexpress
   \<and> options_on_sqlexpress PreloginInstance = Some (''SQLEXPRESS'' @ [CHR 0x00])
   \<and> map_option InstanceName (result_of (mssql_Scan (mssql_world_of peer_on_sqlexpress) mssql_on)) =
       Some (Some ''SQLEXPRESS'')"
proof -
  have l: "L4Dialer (mssql_world_of peer_on_sqlexpress) = Some dial_ok"
    by (simp add: mssql_world_of_def)
  have d: "dial_ok 0 = None"
    by simp
  have p: "PreloginOptions ((NewConnection 0)\<lparr>PreloginOptions := Some options_on_sqlexpress,
                          readValidTDSPacket := True,
                          tlsConn := Some (TLSConnection (Some ''tls log''))\<rparr>) =
       Some options_on_sqlexpress"
    by simp
  have o: "options_on_sqlexpress PreloginInstance = Some (''SQLEXPRESS'' @ [CHR 0x00])"
    by (simp add: options_on_sqlexpress_def)
  obtain r where r: "result_of (mssql_Scan (mssql_world_of peer_on_sqlexpress) mssql_on) = Some r"
    and i: "InstanceName r =
              map_option (\<lambda>name. strings_Trim name instance_cutset)
                (options_on_sqlexpress PreloginInstance)"
    using mssql_instance_name [OF l d handshake_on_sqlexpress p] by blast
  have "InstanceName r = Some ''SQLEXPRESS''"
    using i trim_sqlexpress by (simp add: o)
  with r have "map_option InstanceName (result_of (mssql_Scan (mssql_world_of peer_on_sqlexpress) mssql_on)) =
       Some (Some ''SQLEXPRESS'')"
    by simp
  with l d handshake_on_sqlexpress p o show ?thesis
    by (intro conjI)
qed

section \<open>Properties of the Telnet scanner\<close>

lemma ReadBanner_plain:
  "IAC \<notin> set input \<Longrightarrow> length banner \<le> m \<Longrightarrow> m \<le> length banner + length input \<Longrightarrow>
   ReadBanner m fin input banner opts replies =
     (banner @ take (m - length banner) input, opts, replies, None)"
proof (induction input arbitrary: banner)
  case Nil
  then show ?case by simp
next
  case (Cons b rest)
  show ?case
  proof (cases "m \<le> length banner")
    case True
    with Cons.prems show ?thesis by simp
  next
    case False
    then have lt: "length banner < m" by simp
    have nb: "b \<noteq> IAC" and nr: "IAC \<notin> set rest"
      using Cons.prems(1) by auto
    have "ReadBanner m fin (b # rest) banner opts replies =
            ReadBanner m fin rest (banner @ [b]) opts replies"
      using False nb by simp
    also have "\<dots> = ((banner @ [b]) @ take (m - length (banner @ [b])) rest, opts, replies, None)"
      using nr lt Cons.prems(3) by (intro Cons.IH) simp_all
    also have "(banner @ [b]) @ take (m - length (banner @ [b])) rest =
                 banner @ take (m - length banner) (b # rest)"
      using lt by (simp add: take_Cons')
    finally show ?thesis .
  qed
qed

text \<open>
  C8. With the reader of the specification: when the stream holds N plain banner bytes
  (none is the escape byte) and then ends, and N is greater than the configured
  max-read-size M (a size, so not negative), the banner read has exactly M bytes (the
  first M of the stream) and no error is returned; the scan reports success with that
  banner.
\<close>

theorem telnet_banner_truncated:
  assumes "IAC \<notin> set stream"
    and "0 \<le> M"
    and "M < int (length stream)"
  shows "GetTelnetBanner_spec stream EOF new_TelnetLog c M =
           (\<lparr>Banner = take (nat M) stream, NegotiatedOptions = []\<rparr>, None)
         \<and> int (length (Banner (fst (GetTelnetBanner_spec stream EOF new_TelnetLog c M)))) = M
         \<and> snd (GetTelnetBanner_spec stream EOF new_TelnetLog c M) = None
         \<and> status_of (telnet_Scan (telnet_world_of stream EOF) (telnet_flags M force)) = SCAN_SUCCESS
         \<and> map_option (\<lambda>r. int (length (Banner r)))
             (result_of (telnet_Scan (telnet_world_of stream EOF) (telnet_flags M force))) = Some M
         \<and> error_of (telnet_Scan (telnet_world_of stream EOF) (telnet_flags M force)) = None"
proof -
  have "ReadBanner (nat M) EOF stream [] [] [] = ([] @ take (nat M - length ([]::string)) stream, [], [], None)"
    using assms by (intro ReadBanner_plain) simp_all
  then have g: "GetTelnetBanner_spec stream EOF new_TelnetLog c M =
           (\<lparr>Banner = take (nat M) stream, NegotiatedOptions = []\<rparr>, None)" for c
    by (simp add: GetTelnetBanner_spec_def new_TelnetLog_def)
  have n: "int (length (take (nat M) stream)) = M"
    using assms by simp
  have s: "telnet_Scan (telnet_world_of stream EOF) (telnet_flags M force) =
             ((SCAN_SUCCESS, Some \<lparr>Banner = take (nat M) stream, NegotiatedOptions = []\<rparr>, None),
              [EvDial 0, EvGetTelnetBanner 0 M, EvClose 0])"
    by (simp add: telnet_Scan_def telnet_world_of_def telnet_flags_def g)
  show ?thesis
    using n by (simp add: g s scan_return_defs)
qed

theorem telnet_banner_truncated_witness:
  "IAC \<notin> set ''Welcome''
   \<and> (0::int) \<le> 3
   \<and> (3::int) < int (length ''Welcome'')
   \<and> GetTelnetBanner_spec ''Welcome'' EOF new_TelnetLog 0 3 =
       (\<lparr>Banner = ''Wel'', NegotiatedOptions = []\<rparr>, None)
   \<and> status_of (telnet_Scan (telnet_world_of ''Welcome'' EOF) (telnet_flags 3 False)) = SCAN_SUCCESS
   \<and> error_of (telnet_Scan (telnet_world_of ''Welcome'' EOF) (telnet_flags 3 False)) = None"
proof -
  have i: "IAC \<notin> set ''Welcome''"
    by (simp add: IAC_def)
  have z: "(0::int) \<le> 3"
    by simp
  have n: "(3::int) < int (length ''Welcome'')"
    by simp
  have t: "take (nat 3) ''Welcome'' = ''Wel''"
    by (simp add: take_Cons')
  note a = telnet_banner_truncated [OF i z n, of 0 False]
  show ?thesis
    using a i t by simp
qed






end
